theory Spec2Isabelle
  imports Complex_Main
begin

section \<open>Python values and library operations used by the wrapper\<close>

text \<open>
  The program is \<^verbatim>\<open>src/worker/claude-wrapper.py\<close>: a class \<^verbatim>\<open>ClaudeWrapper\<close> with the
  methods \<^verbatim>\<open>__init__\<close>, \<^verbatim>\<open>load_session\<close>, \<^verbatim>\<open>save_session\<close>, \<^verbatim>\<open>chat\<close>,
  \<^verbatim>\<open>handle_command\<close>, \<^verbatim>\<open>print_help\<close>, and a function \<^verbatim>\<open>main\<close>.

  Python strings are modelled as \<^typ>\<open>string\<close>, one \<^typ>\<open>char\<close> per character, so the
  model covers the characters with code points below 256.

  \<^verbatim>\<open>self.conversation_history\<close> is whatever \<^verbatim>\<open>json.load\<close> returned: any JSON value, not
  only a list of messages. A Python \<^verbatim>\<open>dict\<close> is an association list read with
  \<^const>\<open>map_of\<close>.
\<close>

datatype pyfloat = Finite rat | Infinite bool | NaN

datatype json =
    JNull
  | JBool bool
  | JInt int
  | JFloat pyfloat
  | JStr string
  | JList "json list"
  | JDict "(string \<times> json) list"

text \<open>Truth value of a Python object, as \<^verbatim>\<open>if x:\<close> and \<^verbatim>\<open>not x\<close> test it.\<close>

fun py_truthy :: "json \<Rightarrow> bool" where
  "py_truthy JNull = False"
| "py_truthy (JBool b) = b"
| "py_truthy (JInt i) = (i \<noteq> 0)"
| "py_truthy (JFloat (Finite r)) = (r \<noteq> 0)"
| "py_truthy (JFloat (Infinite _)) = True"
| "py_truthy (JFloat NaN) = True"
| "py_truthy (JStr s) = (s \<noteq> [])"
| "py_truthy (JList xs) = (xs \<noteq> [])"
| "py_truthy (JDict kvs) = (kvs \<noteq> [])"

fun type_name :: "json \<Rightarrow> string" where
  "type_name JNull = ''NoneType''"
| "type_name (JBool _) = ''bool''"
| "type_name (JInt _) = ''int''"
| "type_name (JFloat _) = ''float''"
| "type_name (JStr _) = ''str''"
| "type_name (JList _) = ''list''"
| "type_name (JDict _) = ''dict''"

text \<open>
  An exception object that is an instance of \<^verbatim>\<open>Exception\<close>: its class name and the text
  \<^verbatim>\<open>str(e)\<close>.
\<close>

datatype py_exn = PyExn (exn_class: string) (exn_str: string)

text \<open>
  How a call ends: it returns a value, \<^verbatim>\<open>sys.exit(n)\<close> ends the process with status
  \<^verbatim>\<open>n\<close>, or an exception nobody catches leaves \<^verbatim>\<open>main\<close> (the interpreter then prints
  a traceback and the status is 1).
\<close>

datatype 'a result = Ok 'a | Exit int | Crash

definition newline :: string where
  "newline = [CHR 0x0A]"

text \<open>\<^verbatim>\<open>x.append(v)\<close>: only a list has the method.\<close>

fun py_append :: "json \<Rightarrow> json \<Rightarrow> py_exn + json list" where
  "py_append (JList xs) v = Inr (xs @ [v])"
| "py_append x v =
     Inl (PyExn ''AttributeError''
       ([CHR 0x27] @ type_name x @ [CHR 0x27] @ '' object has no attribute '' @
        [CHR 0x27] @ ''append'' @ [CHR 0x27]))"

text \<open>\<^verbatim>\<open>xs[-n:]\<close> on a list or a string: the last \<^verbatim>\<open>n\<close> elements, all of them when there are fewer.\<close>

definition last_n :: "nat \<Rightarrow> 'a list \<Rightarrow> 'a list" where
  "last_n n xs = drop (length xs - n) xs"

text \<open>
  \<^verbatim>\<open>for msg in x[-2:]\<close>: the elements the loop visits, or \<open>None\<close> when the slice raises
  (a number, a boolean, \<^verbatim>\<open>None\<close> and a dict cannot be sliced). Iterating a string yields
  its characters as strings of length one.
\<close>

fun py_iter_last2 :: "json \<Rightarrow> json list option" where
  "py_iter_last2 (JList xs) = Some (last_n 2 xs)"
| "py_iter_last2 (JStr s) = Some (map (\<lambda>c. JStr [c]) (last_n 2 s))"
| "py_iter_last2 _ = None"

text \<open>\<^verbatim>\<open>x[:100]\<close>: a string or a list is cut to its first 100 elements, anything else raises.\<close>

fun py_slice100 :: "json \<Rightarrow> json option" where
  "py_slice100 (JStr s) = Some (JStr (take 100 s))"
| "py_slice100 (JList xs) = Some (JList (take 100 xs))"
| "py_slice100 _ = None"

text \<open>\<^verbatim>\<open>msg[key]\<close> with a string key: defined on a dict that has the key, raises otherwise.\<close>

fun py_getitem :: "json \<Rightarrow> string \<Rightarrow> json option" where
  "py_getitem (JDict kvs) k = map_of kvs k"
| "py_getitem _ k = None"

text \<open>\<^verbatim>\<open>sep.join(xs)\<close>.\<close>

fun py_join :: "string \<Rightarrow> string list \<Rightarrow> string" where
  "py_join sep [] = []"
| "py_join sep [x] = x"
| "py_join sep (x # y # ys) = x @ sep @ py_join sep (y # ys)"

text \<open>
  \<^verbatim>\<open>s.strip()\<close>: the characters for which \<^verbatim>\<open>str.isspace\<close> holds, among the code points
  below 256, are 9 to 13, 28 to 32, 133 and 160.
\<close>

definition is_space :: "char \<Rightarrow> bool" where
  "is_space c =
     (let n = (of_char c :: nat)
      in (9 \<le> n \<and> n \<le> 13) \<or> (28 \<le> n \<and> n \<le> 32) \<or> n = 133 \<or> n = 160)"

definition py_strip :: "string \<Rightarrow> string" where
  "py_strip s = rev (dropWhile is_space (rev (dropWhile is_space s)))"

text \<open>\<^verbatim>\<open>os.path.join(a, b)\<close> and \<^verbatim>\<open>os.path.dirname(p)\<close> of \<^verbatim>\<open>posixpath\<close>.\<close>

definition os_path_join :: "string \<Rightarrow> string \<Rightarrow> string" where
  "os_path_join a b =
     (if b \<noteq> [] \<and> hd b = CHR ''/'' then b
      else if a = [] \<or> last a = CHR ''/'' then a @ b
      else a @ ''/'' @ b)"

definition os_path_dirname :: "string \<Rightarrow> string" where
  "os_path_dirname p =
     (let head = rev (dropWhile (\<lambda>c. c \<noteq> CHR ''/'') (rev p))
      in if head \<noteq> [] \<and> \<not> list_all (\<lambda>c. c = CHR ''/'') head
         then rev (dropWhile (\<lambda>c. c = CHR ''/'') (rev head))
         else head)"

text \<open>
  Library functions whose code is not part of the program are parameters of the model:
  \<^item> \<open>json_load\<close>: \<^verbatim>\<open>json.load\<close> on the text of a file, \<open>None\<close> when it raises;
  \<^item> \<open>json_dump\<close>: the text \<^verbatim>\<open>json.dump\<close> writes for a value;
  \<^item> \<open>py_int\<close>: \<^verbatim>\<open>int(s)\<close> on a string, \<open>None\<close> when it raises \<^verbatim>\<open>ValueError\<close>;
  \<^item> \<open>py_format\<close>: the text an f-string gives for a value that is not a string.
\<close>

record pylib =
  json_load :: "string \<Rightarrow> json option"
  json_dump :: "json \<Rightarrow> string"
  py_int :: "string \<Rightarrow> int option"
  py_format :: "json \<Rightarrow> string"

definition py_str :: "pylib \<Rightarrow> json \<Rightarrow> string" where
  "py_str L v = (case v of JStr s \<Rightarrow> s | _ \<Rightarrow> py_format L v)"

section \<open>The remote API and the world outside the process\<close>

text \<open>
  The arguments of \<^verbatim>\<open>client.messages.create\<close> and \<^verbatim>\<open>client.messages.stream\<close>.
\<close>

record request =
  req_model :: string
  req_max_tokens :: int
  req_messages :: "json list"

text \<open>
  A content block of a response: a text block has the attribute \<^verbatim>\<open>text\<close>; a block of
  another class (named by the string) has not.
\<close>

datatype content_block = TextBlock string | OtherBlock string

text \<open>
  The remote collaborator, as a deterministic mock:
  \<^item> \<open>messages_create\<close> raises or returns \<^verbatim>\<open>response.content\<close>;
  \<^item> \<open>messages_stream\<close> gives the fragments \<^verbatim>\<open>stream.text_stream\<close> yields, and the
    exception that ends the stream, if one does (with no fragment when opening the
    stream raises).
\<close>

record remote =
  messages_create :: "request \<Rightarrow> py_exn + content_block list"
  messages_stream :: "request \<Rightarrow> string list \<times> py_exn option"

text \<open>
  The world: the files (path to text), standard input, what was written to the output
  and error streams, and the requests sent to the remote API, in order.
  Reading and writing an existing path succeed; the one failure of the file system in
  the model is \<^verbatim>\<open>os.makedirs('')\<close>, which raises \<^verbatim>\<open>FileNotFoundError\<close>.
\<close>

record world =
  fs :: "string \<rightharpoonup> string"
  stdin_isatty :: bool
  stdin_data :: string
  stdout :: string
  stderr :: string
  net_log :: "request list"

definition print_out :: "string \<Rightarrow> world \<Rightarrow> world" where
  "print_out s w = w\<lparr>stdout := stdout w @ s @ newline\<rparr>"

definition write_out :: "string \<Rightarrow> world \<Rightarrow> world" where
  "write_out s w = w\<lparr>stdout := stdout w @ s\<rparr>"

definition print_err :: "string \<Rightarrow> world \<Rightarrow> world" where
  "print_err s w = w\<lparr>stderr := stderr w @ s @ newline\<rparr>"

section \<open>ClaudeWrapper\<close>

record wrapper =
  api_key :: string
  model :: string
  max_tokens :: int
  conversation_history :: json
  session_file :: string

definition user_message :: "string \<Rightarrow> json" where
  "user_message text = JDict [(''role'', JStr ''user''), (''content'', JStr text)]"

definition assistant_message :: "string \<Rightarrow> json" where
  "assistant_message text = JDict [(''role'', JStr ''assistant''), (''content'', JStr text)]"

subsection \<open>load_session and save_session\<close>

text \<open>
  \<^verbatim>\<open>load_session\<close>: when the file exists, the \<^verbatim>\<open>try\<close> block reads and parses it; the
  bare \<^verbatim>\<open>except:\<close> catches whatever it raises and sets the history to the empty
  list. When the file does not exist the history is left as it is.
\<close>

definition load_session :: "pylib \<Rightarrow> wrapper \<Rightarrow> world \<Rightarrow> wrapper" where
  "load_session L self w =
     (case fs w (session_file self) of
        None \<Rightarrow> self
      | Some text \<Rightarrow>
          (case json_load L text of
             Some v \<Rightarrow> self\<lparr>conversation_history := v\<rparr>
           | None \<Rightarrow> self\<lparr>conversation_history := JList []\<rparr>))"

definition os_makedirs :: "string \<Rightarrow> py_exn option" where
  "os_makedirs path =
     (if path = []
      then Some (PyExn ''FileNotFoundError''
             (''[Errno 2] No such file or directory: '' @ [CHR 0x27, CHR 0x27]))
      else None)"

definition save_session :: "pylib \<Rightarrow> wrapper \<Rightarrow> world \<Rightarrow> py_exn + world" where
  "save_session L self w =
     (case os_makedirs (os_path_dirname (session_file self)) of
        Some e \<Rightarrow> Inl e
      | None \<Rightarrow>
          Inr (w\<lparr>fs := (fs w)(session_file self \<mapsto> json_dump L (conversation_history self))\<rparr>))"

subsection \<open>__init__\<close>

definition env_get :: "(string \<rightharpoonup> string) \<Rightarrow> string \<Rightarrow> string \<Rightarrow> string" where
  "env_get env k d = (case env k of None \<Rightarrow> d | Some v \<Rightarrow> v)"

text \<open>
  \<^verbatim>\<open>os.environ.get('CLAUDE_API_KEY') or os.environ.get('ANTHROPIC_API_KEY')\<close>: the first
  when it is set and not empty, the second otherwise.
\<close>

definition resolve_api_key :: "(string \<rightharpoonup> string) \<Rightarrow> string option" where
  "resolve_api_key env =
     (case env ''CLAUDE_API_KEY'' of
        Some v \<Rightarrow> if v \<noteq> [] then Some v else env ''ANTHROPIC_API_KEY''
      | None \<Rightarrow> env ''ANTHROPIC_API_KEY'')"

definition init :: "pylib \<Rightarrow> (string \<rightharpoonup> string) \<Rightarrow> world \<Rightarrow> wrapper result \<times> world" where
  "init L env w =
     (case resolve_api_key env of
        None \<Rightarrow>
          (Exit 1, print_err ''Error: No API key found. Please set CLAUDE_API_KEY or ANTHROPIC_API_KEY'' w)
      | Some key \<Rightarrow>
          if key = [] then
            (Exit 1, print_err ''Error: No API key found. Please set CLAUDE_API_KEY or ANTHROPIC_API_KEY'' w)
          else
            (case py_int L (env_get env ''MAX_TOKENS'' ''4096'') of
               None \<Rightarrow> (Crash, w)
             | Some n \<Rightarrow>
                 (Ok (load_session L
                        \<lparr>api_key = key,
                         model = env_get env ''CLAUDE_MODEL'' ''claude-3-sonnet-20240229'',
                         max_tokens = n,
                         conversation_history = JList [],
                         session_file =
                           os_path_join (env_get env ''CLAUDE_SESSION_DIR'' ''/app/sessions'')
                             ''current_session.json''\<rparr> w),
                  w)))"

subsection \<open>chat\<close>

text \<open>
  The handler of \<^verbatim>\<open>chat\<close>: \<^verbatim>\<open>except Exception as e\<close> prints the text of the exception
  to the error stream and ends the process with status 1.
\<close>

definition chat_except :: "py_exn \<Rightarrow> world \<Rightarrow> wrapper result \<times> world" where
  "chat_except e w = (Exit 1, print_err (''Error: '' @ exn_str e) w)"

text \<open>
  The loop over \<^verbatim>\<open>stream.text_stream\<close>: each fragment is written to the output stream
  with no line end and added to \<^verbatim>\<open>response_text\<close>.
\<close>

fun text_stream_loop :: "string list \<Rightarrow> string \<Rightarrow> world \<Rightarrow> string \<times> world" where
  "text_stream_loop [] response_text w = (response_text, w)"
| "text_stream_loop (text # rest) response_text w =
     text_stream_loop rest (response_text @ text) (write_out text w)"

text \<open>\<^verbatim>\<open>response.content[0].text\<close>.\<close>

fun first_block_text :: "content_block list \<Rightarrow> py_exn + string" where
  "first_block_text [] = Inl (PyExn ''IndexError'' ''list index out of range'')"
| "first_block_text (TextBlock t # _) = Inr t"
| "first_block_text (OtherBlock cls # _) =
     Inl (PyExn ''AttributeError''
       ([CHR 0x27] @ cls @ [CHR 0x27] @ '' object has no attribute '' @
        [CHR 0x27] @ ''text'' @ [CHR 0x27]))"

text \<open>
  The end of the \<^verbatim>\<open>try\<close> block, common to both modes: the assistant's message is
  appended (the history is a list here) and the session is saved.
\<close>

definition chat_finish ::
  "pylib \<Rightarrow> wrapper \<Rightarrow> json list \<Rightarrow> string \<Rightarrow> world \<Rightarrow> wrapper result \<times> world" where
  "chat_finish L self hist response_text w =
     (let self' = self\<lparr>conversation_history := JList (hist @ [assistant_message response_text])\<rparr>
      in case save_session L self' w of
           Inl e \<Rightarrow> chat_except e w
         | Inr w' \<Rightarrow> (Ok self', w'))"

text \<open>
  The keyword arguments of both calls: \<^verbatim>\<open>messages\<close> is
  \<^verbatim>\<open>self.conversation_history[-10:]\<close>, taken after the user's message was appended.
\<close>

definition chat_request :: "wrapper \<Rightarrow> json list \<Rightarrow> request" where
  "chat_request self hist =
     \<lparr>req_model = model self, req_max_tokens = max_tokens self,
      req_messages = last_n 10 hist\<rparr>"

definition chat ::
  "pylib \<Rightarrow> remote \<Rightarrow> wrapper \<Rightarrow> string \<Rightarrow> bool \<Rightarrow> world \<Rightarrow> wrapper result \<times> world" where
  "chat L R self message stream w =
     (case py_append (conversation_history self) (user_message message) of
        Inl e \<Rightarrow> chat_except e w
      | Inr hist \<Rightarrow>
          let req = chat_request self hist;
              w1 = w\<lparr>net_log := net_log w @ [req]\<rparr>
          in if stream then
               (case messages_stream R req of
                  (fragments, err) \<Rightarrow>
                    (case text_stream_loop fragments [] w1 of
                       (response_text, w2) \<Rightarrow>
                         (case err of
                            Some e \<Rightarrow> chat_except e w2
                          | None \<Rightarrow> chat_finish L self hist response_text w2)))
             else
               (case messages_create R req of
                  Inl e \<Rightarrow> chat_except e w1
                | Inr content \<Rightarrow>
                    (case first_block_text content of
                       Inl e \<Rightarrow> chat_except e w1
                     | Inr response_text \<Rightarrow>
                         chat_finish L self hist response_text (print_out response_text w1))))"

subsection \<open>handle_command\<close>

definition help_text :: string where
  \<open>help_text = concat (map (\<lambda>l. l @ newline)
     [[],
      ''Claude CLI Wrapper - Docker Version'',
      [],
      ''Usage:'',
      ''  claude [options] [message]'',
      [],
      ''Options:'',
      ''  --stream          Enable streaming mode'',
      ''  --continue        Resume previous conversation'',
      ''  --clear           Clear conversation history'',
      ''  --version         Show version'',
      ''  --help            Show this help'',
      [],
      ''Examples:'',
      ''  claude "Hello, Claude!"'',
      ''  echo "What is Python?" | claude'',
      ''  claude --stream "Write a long story"'',
      ''  claude --continue'',
      [],
      ''Environment Variables:'',
      ''  CLAUDE_API_KEY    Your Anthropic API key'',
      ''  CLAUDE_MODEL      Model to use (default: claude-3-sonnet-20240229)'',
      ''  MAX_TOKENS        Maximum tokens (default: 4096)''])\<close>

definition print_help :: "world \<Rightarrow> world" where
  "print_help w = print_out help_text w"

text \<open>
  One round of the loop of \<^verbatim>\<open>--continue\<close>: the line printed for a stored message, or
  \<open>None\<close> when \<^verbatim>\<open>msg['role']\<close>, \<^verbatim>\<open>msg['content']\<close> or the slice raises.
\<close>

definition resume_line :: "pylib \<Rightarrow> json \<Rightarrow> string option" where
  "resume_line L msg =
     (case py_getitem msg ''role'' of
        None \<Rightarrow> None
      | Some r \<Rightarrow>
          let role = (if r = JStr ''user'' then ''You'' else ''Claude'')
          in (case py_getitem msg ''content'' of
                None \<Rightarrow> None
              | Some c \<Rightarrow>
                  (case py_slice100 c of
                     None \<Rightarrow> None
                   | Some v \<Rightarrow> Some (role @ '': '' @ py_str L v @ ''...''))))"

fun resume_loop :: "pylib \<Rightarrow> json list \<Rightarrow> world \<Rightarrow> unit result \<times> world" where
  "resume_loop L [] w = (Ok (), w)"
| "resume_loop L (msg # rest) w =
     (case resume_line L msg of
        None \<Rightarrow> (Crash, w)
      | Some line \<Rightarrow> resume_loop L rest (print_out line w))"

text \<open>
  Lines 137 to 145: where the message comes from. Piped input is read first; the
  arguments are used only when the input is a terminal.
\<close>

definition read_message :: "string list \<Rightarrow> world \<Rightarrow> string \<times> world" where
  "read_message args w =
     (if \<not> stdin_isatty w then (py_strip (stdin_data w), w)
      else if args \<noteq> [] then (py_join '' '' args, w)
      else (py_strip (stdin_data w), print_out ''Enter your message (Ctrl+D to send):'' w))"

definition handle_command ::
  "pylib \<Rightarrow> remote \<Rightarrow> wrapper \<Rightarrow> string list \<Rightarrow> world \<Rightarrow> wrapper result \<times> world" where
  "handle_command L R self args w =
     (if ''--help'' \<in> set args \<or> ''-h'' \<in> set args then (Ok self, print_help w)
      else if ''--version'' \<in> set args \<or> ''-v'' \<in> set args then
        (Ok self, print_out ''Claude CLI Wrapper v1.0.0'' w)
      else if ''--clear'' \<in> set args then
        (let self' = self\<lparr>conversation_history := JList []\<rparr>
         in case save_session L self' w of
              Inl e \<Rightarrow> (Crash, w)
            | Inr w' \<Rightarrow> (Ok self', print_out ''Session cleared'' w'))
      else if ''--continue'' \<in> set args \<or> ''--resume'' \<in> set args then
        (if py_truthy (conversation_history self) then
           (let w1 = print_out ''Resuming previous conversation...'' w
            in case py_iter_last2 (conversation_history self) of
                 None \<Rightarrow> (Crash, w1)
               | Some msgs \<Rightarrow>
                   (case resume_loop L msgs w1 of
                      (Ok u, w2) \<Rightarrow> (Ok self, w2)
                    | (Exit n, w2) \<Rightarrow> (Exit n, w2)
                    | (Crash, w2) \<Rightarrow> (Crash, w2)))
         else (Ok self, print_out ''No previous conversation found'' w))
      else
        (let stream = (''--stream'' \<in> set args);
             args' = (if stream then remove1 ''--stream'' args else args)
         in case read_message args' w of
              (message, w1) \<Rightarrow>
                if message \<noteq> [] then chat L R self message stream w1
                else (Ok self, w1)))"

subsection \<open>main\<close>

text \<open>The exit status of the process and the world it leaves.\<close>

definition main ::
  "pylib \<Rightarrow> remote \<Rightarrow> (string \<rightharpoonup> string) \<Rightarrow> string list \<Rightarrow> world \<Rightarrow> int \<times> world" where
  "main L R env argv w =
     (case init L env w of
        (Exit n, w1) \<Rightarrow> (n, w1)
      | (Crash, w1) \<Rightarrow> (1, w1)
      | (Ok wrapper, w1) \<Rightarrow>
          (case handle_command L R wrapper argv w1 of
             (Ok _, w2) \<Rightarrow> (0, w2)
           | (Exit n, w2) \<Rightarrow> (n, w2)
           | (Crash, w2) \<Rightarrow> (1, w2)))"

section \<open>Notions used to state the properties\<close>

text \<open>
  The remote call of \<^const>\<open>chat\<close> raises \<open>e\<close>: in streaming mode the stream ends with
  the exception, otherwise \<^verbatim>\<open>messages.create\<close> raises it.
\<close>

definition remote_raises :: "remote \<Rightarrow> request \<Rightarrow> bool \<Rightarrow> py_exn \<Rightarrow> bool" where
  "remote_raises R req stream e =
     (if stream then snd (messages_stream R req) = Some e else messages_create R req = Inl e)"

text \<open>
  The world after \<^verbatim>\<open>save_session\<close> was called: the world it leaves when it returns, the
  world as it was when it raises.
\<close>

definition after_save :: "pylib \<Rightarrow> wrapper \<Rightarrow> world \<Rightarrow> world" where
  "after_save L self w = (case save_session L self w of Inl e \<Rightarrow> w | Inr w' \<Rightarrow> w')"

text \<open>
  None of the flags that \<^const>\<open>handle_command\<close> answers before it looks for a message.
\<close>

definition no_mode_flag :: "string list \<Rightarrow> bool" where
  "no_mode_flag args =
     (''--help'' \<notin> set args \<and> ''-h'' \<notin> set args \<and> ''--version'' \<notin> set args \<and> ''-v'' \<notin> set args
      \<and> ''--clear'' \<notin> set args \<and> ''--continue'' \<notin> set args \<and> ''--resume'' \<notin> set args)"

text \<open>
  The text a response delivers through \<^verbatim>\<open>stream.text_stream\<close>: the client library yields
  the text deltas of every text block of the response, in order, so the fragments of a
  stream that ends normally are a splitting of the concatenated texts of the text blocks.
  This relation belongs to the client library, not to the program.
\<close>

fun block_text :: "content_block \<Rightarrow> string" where
  "block_text (TextBlock t) = t"
| "block_text (OtherBlock cls) = []"

definition streams_response :: "string list \<times> py_exn option \<Rightarrow> content_block list \<Rightarrow> bool" where
  "streams_response s content =
     (snd s = None \<and> concat (fst s) = concat (map block_text content))"

text \<open>
  A stored message as the program writes it: an object with a \<^verbatim>\<open>role\<close> and a string
  \<^verbatim>\<open>content\<close>; the label and the text that \<^verbatim>\<open>--continue\<close> shows for it.
\<close>

definition is_message :: "json \<Rightarrow> bool" where
  "is_message m =
     (py_getitem m ''role'' \<noteq> None \<and>
      (case py_getitem m ''content'' of Some (JStr c) \<Rightarrow> True | _ \<Rightarrow> False))"

definition role_label :: "json \<Rightarrow> string" where
  "role_label m = (if py_getitem m ''role'' = Some (JStr ''user'') then ''You'' else ''Claude'')"

definition content_text :: "json \<Rightarrow> string" where
  "content_text m = (case py_getitem m ''content'' of Some (JStr c) \<Rightarrow> c | _ \<Rightarrow> [])"

definition resume_text :: "json \<Rightarrow> string" where
  "resume_text m = role_label m @ '': '' @ take 100 (content_text m) @ ''...'' @ newline"

section \<open>Concrete inputs\<close>

text \<open>
  A library that agrees with \<^verbatim>\<open>json\<close> and \<^verbatim>\<open>int\<close> on the few inputs used below, remotes
  that answer, fail, and answer with two text blocks, a wrapper as \<^verbatim>\<open>__init__\<close> leaves
  it with the default environment, and worlds with no session file.
\<close>

definition example_lib :: pylib where
  \<open>example_lib =
     \<lparr>json_load = (\<lambda>text.
        if text = ''[]'' then Some (JList [])
        else if text = ''[{"role": "user", "content": "Hello"}, {"role": "assistant", "content": "Hi there"}]''
          then Some (JList [user_message ''Hello'', assistant_message ''Hi there''])
        else None),
      json_dump = (\<lambda>v.
        if v = JList [] then ''[]''
        else if v = JList [user_message ''Hello'', assistant_message ''Hi there'']
          then ''[{"role": "user", "content": "Hello"}, {"role": "assistant", "content": "Hi there"}]''
        else ''null''),
      py_int = (\<lambda>s. if s = ''4096'' then Some 4096 else None),
      py_format = (\<lambda>v. [])\<rparr>\<close>

definition example_remote :: remote where
  "example_remote =
     \<lparr>messages_create = (\<lambda>req. Inr [TextBlock ''Hi there'']),
      messages_stream = (\<lambda>req. ([''Hi'', '' there''], None))\<rparr>"

definition failing_remote :: remote where
  "failing_remote =
     \<lparr>messages_create = (\<lambda>req. Inl (PyExn ''APIConnectionError'' ''Connection error.'')),
      messages_stream =
        (\<lambda>req. ([''Hi''], Some (PyExn ''APIConnectionError'' ''Connection error.'')))\<rparr>"

definition two_block_remote :: remote where
  "two_block_remote =
     \<lparr>messages_create = (\<lambda>req. Inr [TextBlock ''A'', TextBlock ''B'']),
      messages_stream = (\<lambda>req. ([''A'', ''B''], None))\<rparr>"

definition example_wrapper :: wrapper where
  "example_wrapper =
     \<lparr>api_key = ''sk-test'', model = ''claude-3-sonnet-20240229'', max_tokens = 4096,
      conversation_history = JList [], session_file = ''/app/sessions/current_session.json''\<rparr>"

definition example_world :: world where
  "example_world =
     \<lparr>fs = Map.empty, stdin_isatty = True, stdin_data = [], stdout = [], stderr = [],
      net_log = []\<rparr>"


definition ten_messages :: "json list" where
  "ten_messages =
     [user_message ''q1'', assistant_message ''a1'', user_message ''q2'', assistant_message ''a2'',
      user_message ''q3'', assistant_message ''a3'', user_message ''q4'', assistant_message ''a4'',
      user_message ''q5'', assistant_message ''a5'']"

section \<open>Auxiliary facts\<close>

lemma print_out_fields [simp]:
  "fs (print_out s w) = fs w"
  "net_log (print_out s w) = net_log w"
  "stderr (print_out s w) = stderr w"
  "stdout (print_out s w) = stdout w @ s @ newline"
  "stdin_isatty (print_out s w) = stdin_isatty w"
  "stdin_data (print_out s w) = stdin_data w"
  by (simp_all add: print_out_def)

lemma print_err_fields [simp]:
  "fs (print_err s w) = fs w"
  "net_log (print_err s w) = net_log w"
  "stderr (print_err s w) = stderr w @ s @ newline"
  "stdout (print_err s w) = stdout w"
  by (simp_all add: print_err_def)

text \<open>The loop over the stream concatenates the fragments and writes them out in order.\<close>

lemma text_stream_loop_eq:
  "text_stream_loop frs acc w = (acc @ concat frs, w\<lparr>stdout := stdout w @ concat frs\<rparr>)"
  by (induction frs arbitrary: acc w) (simp_all add: write_out_def)

lemma chat_except_fields [simp]:
  "fst (chat_except e w) = Exit 1"
  "fs (snd (chat_except e w)) = fs w"
  "net_log (snd (chat_except e w)) = net_log w"
  "stdout (snd (chat_except e w)) = stdout w"
  "stderr (snd (chat_except e w)) = stderr w @ ''Error: '' @ exn_str e @ newline"
  by (simp_all add: chat_except_def)

lemma chat_finish_cases:
  "(fst (chat_finish L self hist t w) = Exit 1 \<and> fs (snd (chat_finish L self hist t w)) = fs w)
   \<or> chat_finish L self hist t w =
        (Ok (self\<lparr>conversation_history := JList (hist @ [assistant_message t])\<rparr>),
         w\<lparr>fs := (fs w)(session_file self \<mapsto> json_dump L (JList (hist @ [assistant_message t])))\<rparr>)"
  by (auto simp: chat_finish_def Let_def save_session_def split: option.splits sum.splits)

lemma chat_finish_net_log [simp]:
  "net_log (snd (chat_finish L self hist t w)) = net_log w"
  by (auto simp: chat_finish_def Let_def save_session_def split: option.splits sum.splits)

text \<open>Whatever happens after the user's message was appended, exactly one request was sent.\<close>

lemma chat_net_log:
  assumes "conversation_history self = JList hist"
  shows "net_log (snd (chat L R self message stream w)) =
           net_log w @ [chat_request self (hist @ [user_message message])]"
  using assms
  by (simp add: chat_def Let_def text_stream_loop_eq split: prod.splits option.splits sum.splits)

text \<open>A history that is not a list has no \<^verbatim>\<open>append\<close>: the handler ends the process.\<close>

lemma chat_not_list:
  assumes "\<forall>hist. conversation_history self \<noteq> JList hist"
  shows "fst (chat L R self message stream w) = Exit 1
       \<and> fs (snd (chat L R self message stream w)) = fs w"
  using assms by (cases "conversation_history self") (simp_all add: chat_def)

lemma chat_remote_raises:
  assumes "conversation_history self = JList hist"
    and "remote_raises R (chat_request self (hist @ [user_message message])) stream e"
  shows "fst (chat L R self message stream w) = Exit 1"
    and "stderr (snd (chat L R self message stream w)) = stderr w @ ''Error: '' @ exn_str e @ newline"
    and "fs (snd (chat L R self message stream w)) = fs w"
  using assms
  by (auto simp: chat_def Let_def remote_raises_def text_stream_loop_eq
      split: prod.splits if_splits)

text \<open>
  With a list as history, \<^const>\<open>chat\<close> ends in its handler or in the common end of the
  \<^verbatim>\<open>try\<close> block, and no file was touched before.
\<close>

lemma chat_list_cases:
  assumes "conversation_history self = JList hist"
  shows "(\<exists>e w1. fs w1 = fs w \<and> chat L R self message stream w = chat_except e w1)
       \<or> (\<exists>t w1. fs w1 = fs w \<and>
             chat L R self message stream w = chat_finish L self (hist @ [user_message message]) t w1)"
proof (cases stream)
  case True
  let ?req = "chat_request self (hist @ [user_message message])"
  obtain frs err where s: "messages_stream R ?req = (frs, err)"
    by (cases "messages_stream R ?req")
  let ?w2 = "w\<lparr>net_log := net_log w @ [?req], stdout := stdout w @ concat frs\<rparr>"
  show ?thesis
  proof (cases err)
    case None
    with True s assms have "chat L R self message stream w =
        chat_finish L self (hist @ [user_message message]) (concat frs) ?w2"
      by (simp add: chat_def Let_def text_stream_loop_eq)
    then show ?thesis by (intro disjI2 exI conjI) auto
  next
    case (Some e)
    with True s assms have "chat L R self message stream w = chat_except e ?w2"
      by (simp add: chat_def Let_def text_stream_loop_eq)
    then show ?thesis by (intro disjI1 exI conjI) auto
  qed
next
  case False
  let ?req = "chat_request self (hist @ [user_message message])"
  let ?w1 = "w\<lparr>net_log := net_log w @ [?req]\<rparr>"
  show ?thesis
  proof (cases "messages_create R ?req")
    case (Inl e)
    with False assms have "chat L R self message stream w = chat_except e ?w1"
      by (simp add: chat_def Let_def)
    then show ?thesis by (intro disjI1 exI conjI) auto
  next
    case content: (Inr content)
    show ?thesis
    proof (cases "first_block_text content")
      case (Inl e)
      with content False assms have "chat L R self message stream w = chat_except e ?w1"
        by (simp add: chat_def Let_def)
      then show ?thesis by (intro disjI1 exI conjI) auto
    next
      case (Inr t)
      with content False assms
      have "chat L R self message stream w =
              chat_finish L self (hist @ [user_message message]) t (print_out t ?w1)"
        by (simp add: chat_def Let_def)
      then show ?thesis by (intro disjI2 exI conjI) auto
    qed
  qed
qed

text \<open>
  Every call of \<^const>\<open>chat\<close> either returns with both messages appended and the whole
  history written to the session file, or ends the process with status 1 and leaves
  every file as it was.
\<close>

lemma chat_dichotomy:
  assumes "chat L R self message stream w = (chat_result, w')"
  shows "(\<exists>hist reply.
       conversation_history self = JList hist \<and>
       chat_result = Ok (self\<lparr>conversation_history :=
                       JList (hist @ [user_message message, assistant_message reply])\<rparr>) \<and>
       fs w' = (fs w)(session_file self \<mapsto>
                 json_dump L (JList (hist @ [user_message message, assistant_message reply]))))
   \<or> (chat_result = Exit 1 \<and> fs w' = fs w)"
proof (cases "\<exists>hist. conversation_history self = JList hist")
  case False
  with chat_not_list [of self L R message stream w] assms show ?thesis by auto
next
  case True
  then obtain hist where h: "conversation_history self = JList hist" by blast
  from chat_list_cases [OF h, of w L R message stream]
  consider (exc) e w1 where "fs w1 = fs w" "chat L R self message stream w = chat_except e w1"
    | (fin) t w1 where "fs w1 = fs w"
        "chat L R self message stream w = chat_finish L self (hist @ [user_message message]) t w1"
    by blast
  then show ?thesis
  proof cases
    case exc
    with assms have "chat_result = Exit 1 \<and> fs w' = fs w"
      by (metis chat_except_fields(1,2) fst_conv snd_conv)
    then show ?thesis by simp
  next
    case fin
    from chat_finish_cases [of L self "hist @ [user_message message]" t w1]
    show ?thesis
    proof
      assume "fst (chat_finish L self (hist @ [user_message message]) t w1) = Exit 1 \<and>
              fs (snd (chat_finish L self (hist @ [user_message message]) t w1)) = fs w1"
      with fin assms have "chat_result = Exit 1 \<and> fs w' = fs w"
        by (metis fst_conv snd_conv)
      then show ?thesis by simp
    next
      assume "chat_finish L self (hist @ [user_message message]) t w1 =
        (Ok (self\<lparr>conversation_history :=
               JList ((hist @ [user_message message]) @ [assistant_message t])\<rparr>),
         w1\<lparr>fs := (fs w1)(session_file self \<mapsto>
             json_dump L (JList ((hist @ [user_message message]) @ [assistant_message t])))\<rparr>)"
      with fin assms h show ?thesis by (intro disjI1 exI [of _ hist] exI [of _ t]) auto
    qed
  qed
qed

text \<open>Without a mode flag, \<^const>\<open>handle_command\<close> reads the message and calls \<^const>\<open>chat\<close>.\<close>

lemma handle_command_no_mode_flag:
  assumes "no_mode_flag args"
  shows "handle_command L R self args w =
           (case read_message (remove1 ''--stream'' args) w of
              (message, w1) \<Rightarrow>
                if message \<noteq> [] then chat L R self message (''--stream'' \<in> set args) w1
                else (Ok self, w1))"
  using assms by (simp add: handle_command_def no_mode_flag_def Let_def remove1_idem)

lemma read_message_world:
  "fs (snd (read_message args w)) = fs w" "net_log (snd (read_message args w)) = net_log w"
  by (simp_all add: read_message_def)

text \<open>
  The scenario of the specification: \<^verbatim>\<open>Hello\<close> with an empty history, the reply
  \<^verbatim>\<open>Hi there\<close>.
\<close>

lemma scenario_hello:
  \<open>chat example_lib example_remote example_wrapper ''Hello'' False example_world =
     (Ok (example_wrapper\<lparr>conversation_history :=
            JList [user_message ''Hello'', assistant_message ''Hi there'']\<rparr>),
      example_world
        \<lparr>fs := [''/app/sessions/current_session.json'' \<mapsto>
            ''[{"role": "user", "content": "Hello"}, {"role": "assistant", "content": "Hi there"}]''],
         stdout := ''Hi there'' @ newline,
         net_log := [\<lparr>req_model = ''claude-3-sonnet-20240229'', req_max_tokens = 4096,
                      req_messages = [user_message ''Hello'']\<rparr>]\<rparr>)\<close>
  by (simp add: chat_def Let_def example_remote_def chat_finish_def save_session_def
      os_makedirs_def os_path_dirname_def example_wrapper_def example_world_def example_lib_def
      chat_request_def last_n_def print_out_def)

section \<open>The outbound window (C1)\<close>

text \<open>
  C1. For every conversation log and every new user message, the message list that
  \<^const>\<open>chat\<close> sends is exactly the last 10 entries of the log after the user's message was
  appended, in the same order: it has at most 10 entries and its last entry is the
  message just appended. The request is sent once, in both modes, whatever the remote
  answers.
\<close>

theorem chat_outbound_window:
  assumes "conversation_history self = JList hist"
  shows "net_log (snd (chat L R self message stream w)) =
           net_log w @ [\<lparr>req_model = model self, req_max_tokens = max_tokens self,
                         req_messages = drop (length hist + 1 - 10) (hist @ [user_message message])\<rparr>]
         \<and> length (drop (length hist + 1 - 10) (hist @ [user_message message])) \<le> 10
         \<and> last (drop (length hist + 1 - 10) (hist @ [user_message message])) = user_message message"
proof -
  have "chat_request self (hist @ [user_message message]) =
          \<lparr>req_model = model self, req_max_tokens = max_tokens self,
           req_messages = drop (length hist + 1 - 10) (hist @ [user_message message])\<rparr>"
    by (simp add: chat_request_def last_n_def)
  with chat_net_log [OF assms] show ?thesis by simp
qed

theorem chat_outbound_window_witness:
  "conversation_history (example_wrapper\<lparr>conversation_history :=
       JList (user_message ''q0'' # assistant_message ''a0'' # ten_messages)\<rparr>)
     = JList (user_message ''q0'' # assistant_message ''a0'' # ten_messages)
   \<and> map req_messages (net_log (snd (chat example_lib example_remote
         (example_wrapper\<lparr>conversation_history :=
            JList (user_message ''q0'' # assistant_message ''a0'' # ten_messages)\<rparr>)
         ''Hello'' False example_world)))
     = [[assistant_message ''a1'', user_message ''q2'', assistant_message ''a2'',
         user_message ''q3'', assistant_message ''a3'', user_message ''q4'', assistant_message ''a4'',
         user_message ''q5'', assistant_message ''a5'', user_message ''Hello'']]"
proof -
  let ?self = "example_wrapper\<lparr>conversation_history :=
       JList (user_message ''q0'' # assistant_message ''a0'' # ten_messages)\<rparr>"
  have h: "conversation_history ?self
     = JList (user_message ''q0'' # assistant_message ''a0'' # ten_messages)"
    by simp
  from chat_outbound_window [OF h, of example_lib example_remote "''Hello''" False example_world]
  show ?thesis
    by (simp add: ten_messages_def example_world_def)
qed

section \<open>Loading the session (C2)\<close>

text \<open>
  C2. When the content of the session file is not parseable, \<^const>\<open>load_session\<close> discards
  it and sets the history to the empty list, whatever the history was before. When the
  file is absent, \<^const>\<open>load_session\<close> leaves the wrapper as it is, and \<^verbatim>\<open>__init__\<close>, its
  only caller, has set the history to the empty list just before. So in either case the
  process starts with the empty conversation log: \<^const>\<open>init\<close> returns the wrapper, neither
  exits nor lets an exception out, and leaves the world as it was, with nothing written
  to either stream.
\<close>

theorem load_session_absent_or_malformed:
  "(fs w (session_file self) = Some text \<and> json_load L text = None
      \<longrightarrow> load_session L self w = self\<lparr>conversation_history := JList []\<rparr>)
   \<and> (fs w (session_file self) = None \<longrightarrow> load_session L self w = self)
   \<and> (resolve_api_key env = Some key \<and> key \<noteq> []
        \<and> py_int L (env_get env ''MAX_TOKENS'' ''4096'') = Some n
        \<and> (fs w (os_path_join (env_get env ''CLAUDE_SESSION_DIR'' ''/app/sessions'')
                    ''current_session.json'') = None
            \<or> (\<exists>doc. fs w (os_path_join (env_get env ''CLAUDE_SESSION_DIR'' ''/app/sessions'')
                          ''current_session.json'') = Some doc
                     \<and> json_load L doc = None))
      \<longrightarrow> init L env w =
            (Ok \<lparr>api_key = key,
                 model = env_get env ''CLAUDE_MODEL'' ''claude-3-sonnet-20240229'',
                 max_tokens = n,
                 conversation_history = JList [],
                 session_file = os_path_join (env_get env ''CLAUDE_SESSION_DIR'' ''/app/sessions'')
                                  ''current_session.json''\<rparr>,
             w))"
proof (intro conjI impI)
  assume "fs w (session_file self) = Some text \<and> json_load L text = None"
  then show "load_session L self w = self\<lparr>conversation_history := JList []\<rparr>"
    by (simp add: load_session_def)
next
  assume "fs w (session_file self) = None"
  then show "load_session L self w = self"
    by (simp add: load_session_def)
next
  let ?p = "os_path_join (env_get env ''CLAUDE_SESSION_DIR'' ''/app/sessions'')
              ''current_session.json''"
  let ?s = "\<lparr>api_key = key,
            model = env_get env ''CLAUDE_MODEL'' ''claude-3-sonnet-20240229'',
            max_tokens = n, conversation_history = JList [], session_file = ?p\<rparr>"
  assume a: "resolve_api_key env = Some key \<and> key \<noteq> []
        \<and> py_int L (env_get env ''MAX_TOKENS'' ''4096'') = Some n
        \<and> (fs w ?p = None \<or> (\<exists>doc. fs w ?p = Some doc \<and> json_load L doc = None))"
  then have "load_session L ?s w = ?s"
    by (auto simp: load_session_def)
  with a show "init L env w = (Ok ?s, w)"
    by (simp add: init_def)
qed

theorem load_session_absent_or_malformed_witness:
  "fs (example_world\<lparr>fs := [''/app/sessions/current_session.json'' \<mapsto> ''{oops'']\<rparr>)
      (session_file (example_wrapper\<lparr>conversation_history := JList ten_messages\<rparr>)) = Some ''{oops''
   \<and> json_load example_lib ''{oops'' = None
   \<and> conversation_history
        (load_session example_lib (example_wrapper\<lparr>conversation_history := JList ten_messages\<rparr>)
          (example_world\<lparr>fs := [''/app/sessions/current_session.json'' \<mapsto> ''{oops'']\<rparr>)) = JList []
   \<and> JList ten_messages \<noteq> JList []
   \<and> fs example_world (session_file (example_wrapper\<lparr>conversation_history := JList ten_messages\<rparr>))
       = None
   \<and> conversation_history
        (load_session example_lib (example_wrapper\<lparr>conversation_history := JList ten_messages\<rparr>)
          example_world) = JList ten_messages
   \<and> resolve_api_key [''ANTHROPIC_API_KEY'' \<mapsto> ''sk-test''] = Some ''sk-test''
   \<and> init example_lib [''ANTHROPIC_API_KEY'' \<mapsto> ''sk-test'']
        (example_world\<lparr>fs := [''/app/sessions/current_session.json'' \<mapsto> ''{oops'']\<rparr>)
       = (Ok example_wrapper,
          example_world\<lparr>fs := [''/app/sessions/current_session.json'' \<mapsto> ''{oops'']\<rparr>)"
proof -
  let ?w = "example_world\<lparr>fs := [''/app/sessions/current_session.json'' \<mapsto> ''{oops'']\<rparr>"
  let ?s = "example_wrapper\<lparr>conversation_history := JList ten_messages\<rparr>"
  let ?env = "[''ANTHROPIC_API_KEY'' \<mapsto> ''sk-test'']"
  note inst = load_session_absent_or_malformed
    [of ?w ?s "''{oops''" example_lib ?env "''sk-test''" 4096]
  have f: "fs ?w (session_file ?s) = Some ''{oops''"
    by (simp add: example_wrapper_def)
  have j: "json_load example_lib ''{oops'' = None"
    by (simp add: example_lib_def)
  from inst f j have "load_session example_lib ?s ?w = ?s\<lparr>conversation_history := JList []\<rparr>"
    by blast
  then have m: "conversation_history (load_session example_lib ?s ?w) = JList []"
    by simp
  have ne: "JList ten_messages \<noteq> JList []"
    by (simp add: ten_messages_def)
  have a: "fs example_world (session_file ?s) = None"
    by (simp add: example_world_def)
  from load_session_absent_or_malformed
    [of example_world ?s "''{oops''" example_lib ?env "''sk-test''" 4096] a
  have "load_session example_lib ?s example_world = ?s"
    by blast
  then have n: "conversation_history (load_session example_lib ?s example_world) = JList ten_messages"
    by simp
  have k: "resolve_api_key ?env = Some ''sk-test''"
    by (simp add: resolve_api_key_def)
  have k': "''sk-test'' \<noteq> []" by simp
  have i: "py_int example_lib (env_get ?env ''MAX_TOKENS'' ''4096'') = Some 4096"
    by (simp add: env_get_def example_lib_def)
  have p: "os_path_join (env_get ?env ''CLAUDE_SESSION_DIR'' ''/app/sessions'')
             ''current_session.json'' = ''/app/sessions/current_session.json''"
    by (simp add: env_get_def os_path_join_def)
  have mo: "env_get ?env ''CLAUDE_MODEL'' ''claude-3-sonnet-20240229'' = ''claude-3-sonnet-20240229''"
    by (simp add: env_get_def)
  have d: "\<exists>doc. fs ?w (os_path_join (env_get ?env ''CLAUDE_SESSION_DIR'' ''/app/sessions'')
             ''current_session.json'') = Some doc \<and> json_load example_lib doc = None"
    unfolding p using j by simp
  from inst k k' i d
  have "init example_lib ?env ?w =
            (Ok \<lparr>api_key = ''sk-test'',
                 model = env_get ?env ''CLAUDE_MODEL'' ''claude-3-sonnet-20240229'',
                 max_tokens = 4096,
                 conversation_history = JList [],
                 session_file = os_path_join (env_get ?env ''CLAUDE_SESSION_DIR'' ''/app/sessions'')
                                  ''current_session.json''\<rparr>,
             ?w)"
    by blast
  then have ini: "init example_lib ?env ?w = (Ok example_wrapper, ?w)"
    unfolding p mo by (simp add: example_wrapper_def)
  from f j m ne a n k ini show ?thesis by blast
qed

section \<open>Failure of the remote call (C3)\<close>

text \<open>
  C3. When the remote collaborator raises an exception in a call of \<^const>\<open>chat\<close>, the
  exception is caught: \<^verbatim>\<open>Error: \<close> followed by its message text is printed to the error
  stream, the process exits with status 1, and the session file is left as it was, so
  the user's message just appended is not saved. And for every call: either the turn
  completes, with the user's and the assistant's messages appended and the whole log
  saved, or the process exits with status 1 and the persisted state has nothing of the
  new turn.
\<close>

theorem chat_remote_error_atomic:
  "(conversation_history self = JList hist
      \<and> remote_raises R (chat_request self (hist @ [user_message message])) stream e
    \<longrightarrow> fst (chat L R self message stream w) = Exit 1
      \<and> stderr (snd (chat L R self message stream w)) = stderr w @ ''Error: '' @ exn_str e @ newline
      \<and> fs (snd (chat L R self message stream w)) = fs w)
   \<and> ((\<exists>hist reply.
          conversation_history self = JList hist
        \<and> fst (chat L R self message stream w) =
            Ok (self\<lparr>conversation_history :=
                  JList (hist @ [user_message message, assistant_message reply])\<rparr>)
        \<and> fs (snd (chat L R self message stream w)) =
            (fs w)(session_file self \<mapsto>
               json_dump L (JList (hist @ [user_message message, assistant_message reply]))))
       \<or> (fst (chat L R self message stream w) = Exit 1
          \<and> fs (snd (chat L R self message stream w)) = fs w))"
proof (intro conjI impI)
  assume a: "conversation_history self = JList hist
      \<and> remote_raises R (chat_request self (hist @ [user_message message])) stream e"
  then have h: "conversation_history self = JList hist"
    and r: "remote_raises R (chat_request self (hist @ [user_message message])) stream e"
    by simp_all
  show "fst (chat L R self message stream w) = Exit 1"
    by (rule chat_remote_raises(1) [OF h r])
  show "stderr (snd (chat L R self message stream w)) = stderr w @ ''Error: '' @ exn_str e @ newline"
    by (rule chat_remote_raises(2) [OF h r])
  show "fs (snd (chat L R self message stream w)) = fs w"
    by (rule chat_remote_raises(3) [OF h r])
next
  obtain res w' where c: "chat L R self message stream w = (res, w')"
    by (cases "chat L R self message stream w")
  from chat_dichotomy [OF c] c
  show "(\<exists>hist reply.
          conversation_history self = JList hist
        \<and> fst (chat L R self message stream w) =
            Ok (self\<lparr>conversation_history :=
                  JList (hist @ [user_message message, assistant_message reply])\<rparr>)
        \<and> fs (snd (chat L R self message stream w)) =
            (fs w)(session_file self \<mapsto>
               json_dump L (JList (hist @ [user_message message, assistant_message reply]))))
       \<or> (fst (chat L R self message stream w) = Exit 1
          \<and> fs (snd (chat L R self message stream w)) = fs w)"
    by simp
qed

theorem chat_remote_error_atomic_witness:
  "conversation_history example_wrapper = JList []
   \<and> remote_raises failing_remote (chat_request example_wrapper ([] @ [user_message ''Hello'']))
       True (PyExn ''APIConnectionError'' ''Connection error.'')
   \<and> fst (chat example_lib failing_remote example_wrapper ''Hello'' True example_world) = Exit 1
   \<and> stderr (snd (chat example_lib failing_remote example_wrapper ''Hello'' True example_world))
       = ''Error: Connection error.'' @ newline
   \<and> fs (snd (chat example_lib failing_remote example_wrapper ''Hello'' True example_world))
       (session_file example_wrapper) = None"
proof -
  have h: "conversation_history example_wrapper = JList []"
    by (simp add: example_wrapper_def)
  have r: "remote_raises failing_remote (chat_request example_wrapper ([] @ [user_message ''Hello'']))
       True (PyExn ''APIConnectionError'' ''Connection error.'')"
    by (simp add: remote_raises_def failing_remote_def)
  from chat_remote_error_atomic
    [of example_wrapper "[]" failing_remote "''Hello''" True
        "PyExn ''APIConnectionError'' ''Connection error.''" example_lib example_world] h r
  show ?thesis
    by (simp add: example_world_def)
qed

section \<open>Loading, then saving (C4)\<close>

text \<open>
  C4. For every session document on disk, \<^const>\<open>load_session\<close> followed at once by
  \<^const>\<open>save_session\<close> of the unchanged result changes nothing for a later
  \<^const>\<open>load_session\<close>: it yields what the first one did. A malformed document is
  replaced by the representation of the empty log. The hypothesis is the round trip of
  the \<^verbatim>\<open>json\<close> library on the value that was loaded.
\<close>

theorem load_save_roundtrip:
  assumes "json_load L (json_dump L (conversation_history (load_session L self w)))
             = Some (conversation_history (load_session L self w))"
  shows "load_session L self (after_save L (load_session L self w) w) = load_session L self w
       \<and> ((\<exists>text. fs w (session_file self) = Some text \<and> json_load L text = None)
            \<and> os_path_dirname (session_file self) \<noteq> []
          \<longrightarrow> fs (after_save L (load_session L self w) w) (session_file self)
                = Some (json_dump L (JList [])))"
proof -
  let ?s1 = "load_session L self w"
  have sf: "session_file ?s1 = session_file self"
    by (simp add: load_session_def split: option.splits)
  have upd: "self\<lparr>conversation_history := conversation_history ?s1\<rparr> = ?s1"
    by (simp add: load_session_def split: option.splits)
  have first: "load_session L self (after_save L ?s1 w) = ?s1"
  proof (cases "save_session L ?s1 w")
    case (Inl e)
    then show ?thesis by (simp add: after_save_def)
  next
    case (Inr w')
    then have "fs w' (session_file self) = Some (json_dump L (conversation_history ?s1))"
      using sf by (auto simp: save_session_def split: option.splits)
    then have "load_session L self w' = self\<lparr>conversation_history := conversation_history ?s1\<rparr>"
      using assms by (simp add: load_session_def)
    with upd Inr show ?thesis by (simp add: after_save_def)
  qed
  have second: "fs (after_save L ?s1 w) (session_file self) = Some (json_dump L (JList []))"
    if "\<exists>text. fs w (session_file self) = Some text \<and> json_load L text = None"
      and "os_path_dirname (session_file self) \<noteq> []"
    using that
    by (auto simp: after_save_def save_session_def os_makedirs_def load_session_def)
  from first second show ?thesis by blast
qed

theorem load_save_roundtrip_witness:
  \<open>conversation_history (load_session example_lib example_wrapper
        (example_world\<lparr>fs := [''/app/sessions/current_session.json'' \<mapsto>
           ''[{"role": "user", "content": "Hello"}, {"role": "assistant", "content": "Hi there"}]'']\<rparr>))
     = JList [user_message ''Hello'', assistant_message ''Hi there'']
   \<and> json_load example_lib (json_dump example_lib
        (JList [user_message ''Hello'', assistant_message ''Hi there'']))
     = Some (JList [user_message ''Hello'', assistant_message ''Hi there''])
   \<and> conversation_history (load_session example_lib example_wrapper
        (after_save example_lib
           (load_session example_lib example_wrapper
              (example_world\<lparr>fs := [''/app/sessions/current_session.json'' \<mapsto>
                 ''[{"role": "user", "content": "Hello"}, {"role": "assistant", "content": "Hi there"}]'']\<rparr>))
           (example_world\<lparr>fs := [''/app/sessions/current_session.json'' \<mapsto>
              ''[{"role": "user", "content": "Hello"}, {"role": "assistant", "content": "Hi there"}]'']\<rparr>)))
     = JList [user_message ''Hello'', assistant_message ''Hi there'']
   \<and> json_load example_lib ''{oops'' = None
   \<and> json_load example_lib (json_dump example_lib (JList [])) = Some (JList [])
   \<and> fs (after_save example_lib
           (load_session example_lib example_wrapper
              (example_world\<lparr>fs := [''/app/sessions/current_session.json'' \<mapsto> ''{oops'']\<rparr>))
           (example_world\<lparr>fs := [''/app/sessions/current_session.json'' \<mapsto> ''{oops'']\<rparr>))
        ''/app/sessions/current_session.json''
     = Some ''[]''\<close>
proof -
  let ?w = \<open>example_world\<lparr>fs := [''/app/sessions/current_session.json'' \<mapsto>
     ''[{"role": "user", "content": "Hello"}, {"role": "assistant", "content": "Hi there"}]'']\<rparr>\<close>
  let ?v = "example_world\<lparr>fs := [''/app/sessions/current_session.json'' \<mapsto> ''{oops'']\<rparr>"
  have l: "conversation_history (load_session example_lib example_wrapper ?w)
            = JList [user_message ''Hello'', assistant_message ''Hi there'']"
    by (simp add: load_session_def example_wrapper_def example_lib_def)
  have rt: "json_load example_lib (json_dump example_lib
        (JList [user_message ''Hello'', assistant_message ''Hi there'']))
     = Some (JList [user_message ''Hello'', assistant_message ''Hi there''])"
    by (simp add: example_lib_def user_message_def assistant_message_def)
  have h: "json_load example_lib (json_dump example_lib
             (conversation_history (load_session example_lib example_wrapper ?w)))
           = Some (conversation_history (load_session example_lib example_wrapper ?w))"
    unfolding l by (rule rt)
  from load_save_roundtrip [OF h] l
  have one: "conversation_history (load_session example_lib example_wrapper
        (after_save example_lib (load_session example_lib example_wrapper ?w) ?w))
     = JList [user_message ''Hello'', assistant_message ''Hi there'']"
    by simp
  have bad: "json_load example_lib ''{oops'' = None"
    by (simp add: example_lib_def)
  have e: "json_load example_lib (json_dump example_lib (JList [])) = Some (JList [])"
    by (simp add: example_lib_def)
  have l': "conversation_history (load_session example_lib example_wrapper ?v) = JList []"
    by (simp add: load_session_def example_wrapper_def example_lib_def)
  have h': "json_load example_lib (json_dump example_lib
             (conversation_history (load_session example_lib example_wrapper ?v)))
           = Some (conversation_history (load_session example_lib example_wrapper ?v))"
    unfolding l' by (rule e)
  have m: "\<exists>text. fs ?v (session_file example_wrapper) = Some text \<and> json_load example_lib text = None"
    using bad by (simp add: example_wrapper_def)
  have d: "os_path_dirname (session_file example_wrapper) \<noteq> []"
    by (simp add: example_wrapper_def os_path_dirname_def)
  from load_save_roundtrip [OF h'] m d
  have "fs (after_save example_lib (load_session example_lib example_wrapper ?v) ?v)
          (session_file example_wrapper) = Some (json_dump example_lib (JList []))"
    by blast
  then have two: "fs (after_save example_lib (load_session example_lib example_wrapper ?v) ?v)
        ''/app/sessions/current_session.json'' = Some ''[]''"
    by (simp add: example_wrapper_def example_lib_def)
  from l rt one bad e two show ?thesis by blast
qed

section \<open>No credential (C6)\<close>

text \<open>
  C6. When neither \<^verbatim>\<open>CLAUDE_API_KEY\<close> nor \<^verbatim>\<open>ANTHROPIC_API_KEY\<close> gives a value (each is
  unset or empty), the process writes the error line to the error stream and exits with
  status 1; nothing else in the world changes: no request is sent and no file is
  written, so a session file that did not exist still does not.
\<close>

theorem main_no_credential:
  assumes "env ''CLAUDE_API_KEY'' = None \<or> env ''CLAUDE_API_KEY'' = Some []"
    and "env ''ANTHROPIC_API_KEY'' = None \<or> env ''ANTHROPIC_API_KEY'' = Some []"
  shows "main L R env argv w =
           (1, w\<lparr>stderr := stderr w @
                  ''Error: No API key found. Please set CLAUDE_API_KEY or ANTHROPIC_API_KEY'' @
                  newline\<rparr>)
       \<and> net_log (snd (main L R env argv w)) = net_log w
       \<and> fs (snd (main L R env argv w)) = fs w"
  using assms by (auto simp: main_def init_def resolve_api_key_def print_err_def)

theorem main_no_credential_witness:
  "[''CLAUDE_API_KEY'' \<mapsto> []] ''CLAUDE_API_KEY'' = Some []
   \<and> [''CLAUDE_API_KEY'' \<mapsto> []] ''ANTHROPIC_API_KEY'' = None
   \<and> fst (main example_lib example_remote [''CLAUDE_API_KEY'' \<mapsto> []] [''Hello''] example_world) = 1
   \<and> net_log (snd (main example_lib example_remote [''CLAUDE_API_KEY'' \<mapsto> []] [''Hello'']
        example_world)) = []
   \<and> fs (snd (main example_lib example_remote [''CLAUDE_API_KEY'' \<mapsto> []] [''Hello'']
        example_world)) ''/app/sessions/current_session.json'' = None"
proof -
  have a: "[''CLAUDE_API_KEY'' \<mapsto> []] ''CLAUDE_API_KEY'' = None
         \<or> [''CLAUDE_API_KEY'' \<mapsto> []] ''CLAUDE_API_KEY'' = Some []"
    by simp
  have b: "[''CLAUDE_API_KEY'' \<mapsto> []] ''ANTHROPIC_API_KEY'' = None
         \<or> [''CLAUDE_API_KEY'' \<mapsto> []] ''ANTHROPIC_API_KEY'' = Some []"
    by simp
  from main_no_credential [OF a b, of example_lib example_remote "[''Hello'']" example_world]
  have m: "main example_lib example_remote [''CLAUDE_API_KEY'' \<mapsto> []] [''Hello''] example_world =
      (1, example_world\<lparr>stderr := stderr example_world @
            ''Error: No API key found. Please set CLAUDE_API_KEY or ANTHROPIC_API_KEY'' @
            newline\<rparr>)"
    by (rule conjunct1)
  have "[''CLAUDE_API_KEY'' \<mapsto> []] ''CLAUDE_API_KEY'' = Some []"
    and "[''CLAUDE_API_KEY'' \<mapsto> []] ''ANTHROPIC_API_KEY'' = None"
    by simp_all
  then show ?thesis
    unfolding m by (simp add: example_world_def)
qed

section \<open>The stored history is not truncated (C7)\<close>

text \<open>
  C7. A call of \<^const>\<open>chat\<close> that returns has appended two entries, the user's message and
  the assistant's, to the log, and has written the whole log to the session file: from a
  log of exactly 10 entries the file holds a log of exactly 12. Only the outbound
  window is cut to 10; the stored history never is.
\<close>

theorem chat_ten_entries_twelve_on_disk:
  assumes "conversation_history self = JList hist"
    and "fst (chat L R self message stream w) = Ok self'"
  shows "\<exists>reply.
           conversation_history self' = JList (hist @ [user_message message, assistant_message reply])
         \<and> fs (snd (chat L R self message stream w)) (session_file self)
             = Some (json_dump L (JList (hist @ [user_message message, assistant_message reply])))
         \<and> (length hist = 10 \<longrightarrow>
              length (hist @ [user_message message, assistant_message reply]) = 12
            \<and> length (req_messages (last (net_log (snd (chat L R self message stream w))))) = 10)"
proof -
  obtain r w' where c: "chat L R self message stream w = (r, w')"
    by (cases "chat L R self message stream w")
  with assms(2) have r: "r = Ok self'" by simp
  have "length hist = 10 \<Longrightarrow>
          length (req_messages (last (net_log (snd (chat L R self message stream w))))) = 10"
    by (simp add: chat_net_log [OF assms(1)] chat_request_def last_n_def)
  with chat_dichotomy [OF c] r assms(1) c show ?thesis
    by auto
qed

theorem chat_ten_entries_twelve_on_disk_witness:
  "conversation_history (example_wrapper\<lparr>conversation_history := JList ten_messages\<rparr>)
     = JList ten_messages
   \<and> length ten_messages = 10
   \<and> fst (chat example_lib example_remote
        (example_wrapper\<lparr>conversation_history := JList ten_messages\<rparr>) ''Hello'' False example_world)
     = Ok (example_wrapper\<lparr>conversation_history :=
             JList (ten_messages @ [user_message ''Hello'', assistant_message ''Hi there''])\<rparr>)
   \<and> fs (snd (chat example_lib example_remote
        (example_wrapper\<lparr>conversation_history := JList ten_messages\<rparr>) ''Hello'' False example_world))
        ''/app/sessions/current_session.json''
     = Some (json_dump example_lib
         (JList (ten_messages @ [user_message ''Hello'', assistant_message ''Hi there''])))
   \<and> length (ten_messages @ [user_message ''Hello'', assistant_message ''Hi there'']) = 12"
proof -
  let ?self = "example_wrapper\<lparr>conversation_history := JList ten_messages\<rparr>"
  let ?self' = "example_wrapper\<lparr>conversation_history :=
             JList (ten_messages @ [user_message ''Hello'', assistant_message ''Hi there''])\<rparr>"
  have h: "conversation_history ?self = JList ten_messages" by simp
  have n: "length ten_messages = 10" by (simp add: ten_messages_def)
  have ok: "fst (chat example_lib example_remote ?self ''Hello'' False example_world) = Ok ?self'"
    by (simp add: chat_def Let_def example_remote_def chat_finish_def save_session_def
        os_makedirs_def os_path_dirname_def example_wrapper_def)
  from chat_ten_entries_twelve_on_disk [OF h ok]
  obtain reply where
    r: "conversation_history ?self' = JList (ten_messages @ [user_message ''Hello'', assistant_message reply])"
    and f: "fs (snd (chat example_lib example_remote ?self ''Hello'' False example_world))
              (session_file ?self)
            = Some (json_dump example_lib
                (JList (ten_messages @ [user_message ''Hello'', assistant_message reply])))"
    by blast
  from r have "reply = ''Hi there''" by (simp add: assistant_message_def)
  with f have "fs (snd (chat example_lib example_remote ?self ''Hello'' False example_world))
        ''/app/sessions/current_session.json''
     = Some (json_dump example_lib
         (JList (ten_messages @ [user_message ''Hello'', assistant_message ''Hi there''])))"
    by (simp add: example_wrapper_def)
  with h n ok show ?thesis by simp
qed

section \<open>An empty message (C10)\<close>

text \<open>
  C10. When no mode flag is given and the message that \<^const>\<open>handle_command\<close> resolves is
  the empty string (empty piped input after trimming, or no argument and empty
  interactive input), \<^const>\<open>handle_command\<close> returns normally, sends no request and
  leaves every file as it was.
\<close>

theorem handle_command_empty_message:
  assumes "no_mode_flag args"
    and "fst (read_message (remove1 ''--stream'' args) w) = []"
  shows "fst (handle_command L R self args w) = Ok self
       \<and> fs (snd (handle_command L R self args w)) = fs w
       \<and> net_log (snd (handle_command L R self args w)) = net_log w"
proof -
  obtain m w1 where rm: "read_message (remove1 ''--stream'' args) w = (m, w1)"
    by (cases "read_message (remove1 ''--stream'' args) w")
  with assms(2) have m: "m = []" by simp
  from rm read_message_world [of "remove1 ''--stream'' args" w]
  have "fs w1 = fs w" "net_log w1 = net_log w" by simp_all
  with rm m show ?thesis
    by (simp add: handle_command_no_mode_flag [OF assms(1)])
qed

theorem handle_command_empty_message_witness:
  "no_mode_flag [''--stream'']
   \<and> fst (read_message (remove1 ''--stream'' [''--stream''])
        (example_world\<lparr>stdin_isatty := False, stdin_data := [CHR '' '', CHR 0x0A]\<rparr>)) = []
   \<and> fst (handle_command example_lib example_remote example_wrapper [''--stream'']
        (example_world\<lparr>stdin_isatty := False, stdin_data := [CHR '' '', CHR 0x0A]\<rparr>))
     = Ok example_wrapper
   \<and> net_log (snd (handle_command example_lib example_remote example_wrapper [''--stream'']
        (example_world\<lparr>stdin_isatty := False, stdin_data := [CHR '' '', CHR 0x0A]\<rparr>))) = []"
proof -
  let ?w = "example_world\<lparr>stdin_isatty := False, stdin_data := [CHR '' '', CHR 0x0A]\<rparr>"
  have a: "no_mode_flag [''--stream'']" by (simp add: no_mode_flag_def)
  have b: "fst (read_message (remove1 ''--stream'' [''--stream'']) ?w) = []"
    by (simp add: read_message_def py_strip_def is_space_def)
  from handle_command_empty_message [OF a b, of example_lib example_remote example_wrapper] a b
  show ?thesis by (simp add: example_world_def)
qed

section \<open>Where the message comes from (C5)\<close>





section \<open>Streaming and non-streaming (C8)\<close>

text \<open>
  C8, as the program does it. When the first content block of the response is a text
  block and the fragments of the stream concatenate to the text of that block (as for
  every response that is a single text block), \<^const>\<open>chat\<close> in streaming mode and in
  non-streaming mode end the same way: both append the same assistant message to the
  log and write the same session file, or both end in the handler when saving fails.
\<close>

theorem chat_stream_equivalence:
  assumes "conversation_history self = JList hist"
    and "messages_create R (chat_request self (hist @ [user_message message]))
           = Inr (TextBlock t # rest)"
    and "messages_stream R (chat_request self (hist @ [user_message message])) = (frs, None)"
    and "concat frs = t"
  shows "fst (chat L R self message True w) = fst (chat L R self message False w)
       \<and> fs (snd (chat L R self message True w)) = fs (snd (chat L R self message False w))
       \<and> (fst (chat L R self message True w) = Exit 1
          \<or> fst (chat L R self message True w) =
              Ok (self\<lparr>conversation_history :=
                    JList (hist @ [user_message message, assistant_message t])\<rparr>))"
  using assms
  by (auto simp: chat_def Let_def text_stream_loop_eq chat_finish_def
      save_session_def split: option.splits)

theorem chat_stream_equivalence_witness:
  "conversation_history example_wrapper = JList []
   \<and> messages_create example_remote (chat_request example_wrapper ([] @ [user_message ''Hello'']))
       = Inr (TextBlock ''Hi there'' # [])
   \<and> messages_stream example_remote (chat_request example_wrapper ([] @ [user_message ''Hello'']))
       = ([''Hi'', '' there''], None)
   \<and> concat [''Hi'', '' there''] = ''Hi there''
   \<and> fst (chat example_lib example_remote example_wrapper ''Hello'' True example_world)
       = fst (chat example_lib example_remote example_wrapper ''Hello'' False example_world)
   \<and> fst (chat example_lib example_remote example_wrapper ''Hello'' False example_world)
       = Ok (example_wrapper\<lparr>conversation_history :=
               JList [user_message ''Hello'', assistant_message ''Hi there'']\<rparr>)"
proof -
  have h: "conversation_history example_wrapper = JList []"
    by (simp add: example_wrapper_def)
  have c: "messages_create example_remote (chat_request example_wrapper ([] @ [user_message ''Hello'']))
       = Inr (TextBlock ''Hi there'' # [])"
    by (simp add: example_remote_def)
  have s: "messages_stream example_remote (chat_request example_wrapper ([] @ [user_message ''Hello'']))
       = ([''Hi'', '' there''], None)"
    by (simp add: example_remote_def)
  have k: "concat [''Hi'', '' there''] = ''Hi there''" by simp
  have ok: "fst (chat example_lib example_remote example_wrapper ''Hello'' False example_world)
       = Ok (example_wrapper\<lparr>conversation_history :=
               JList [user_message ''Hello'', assistant_message ''Hi there'']\<rparr>)"
    by (simp add: chat_def Let_def example_remote_def chat_finish_def save_session_def
        os_makedirs_def os_path_dirname_def example_wrapper_def)
  from chat_stream_equivalence [OF h c s k, of example_lib example_world]
  have "fst (chat example_lib example_remote example_wrapper ''Hello'' True example_world)
       = fst (chat example_lib example_remote example_wrapper ''Hello'' False example_world)"
    by (rule conjunct1)
  with h c s k ok show ?thesis by blast
qed

text \<open>
  C8 as stated fails for a response with two text blocks: the stream yields the text of
  both, \<^verbatim>\<open>response.content[0].text\<close> is the text of the first only.
\<close>

theorem chat_stream_counterexample:
  "streams_response (messages_stream two_block_remote (chat_request example_wrapper [user_message ''q'']))
     [TextBlock ''A'', TextBlock ''B'']
   \<and> messages_create two_block_remote (chat_request example_wrapper [user_message ''q''])
       = Inr [TextBlock ''A'', TextBlock ''B'']
   \<and> fst (chat example_lib two_block_remote example_wrapper ''q'' True example_world)
       = Ok (example_wrapper\<lparr>conversation_history :=
               JList [user_message ''q'', assistant_message ''AB'']\<rparr>)
   \<and> fst (chat example_lib two_block_remote example_wrapper ''q'' False example_world)
       = Ok (example_wrapper\<lparr>conversation_history :=
               JList [user_message ''q'', assistant_message ''A'']\<rparr>)"
  by (simp add: streams_response_def two_block_remote_def chat_def Let_def text_stream_loop_eq
      chat_finish_def save_session_def example_wrapper_def os_makedirs_def os_path_dirname_def)

section \<open>Resuming (C9)\<close>

lemma resume_line_message:
  assumes "is_message m"
  shows "resume_line L m = Some (role_label m @ '': '' @ take 100 (content_text m) @ ''...'')"
  using assms
  by (auto simp: is_message_def resume_line_def role_label_def content_text_def py_str_def Let_def
      split: option.splits json.splits)

lemma resume_loop_messages:
  assumes "list_all is_message msgs"
  shows "resume_loop L msgs w = (Ok (), w\<lparr>stdout := stdout w @ concat (map resume_text msgs)\<rparr>)"
  using assms
  by (induction msgs arbitrary: w) (simp_all add: resume_line_message resume_text_def print_out_def)

lemma handle_command_clear:
  assumes "''--help'' \<notin> set args" "''-h'' \<notin> set args" "''--version'' \<notin> set args"
        "''-v'' \<notin> set args" "''--clear'' \<in> set args"
    and "os_path_dirname (session_file self) \<noteq> []"
  shows "handle_command L R self args w =
           (Ok (self\<lparr>conversation_history := JList []\<rparr>),
            w\<lparr>fs := (fs w)(session_file self \<mapsto> json_dump L (JList [])),
              stdout := stdout w @ ''Session cleared'' @ newline\<rparr>)"
  using assms
  by (simp add: handle_command_def Let_def save_session_def os_makedirs_def print_out_def)

text \<open>
  After \<^verbatim>\<open>--clear\<close>, a new process that loads the session and is asked to continue
  reports that there is no previous conversation.
\<close>

lemma clear_then_continue:
  assumes "''--help'' \<notin> set args" "''-h'' \<notin> set args" "''--version'' \<notin> set args"
        "''-v'' \<notin> set args" "''--clear'' \<in> set args"
    and "os_path_dirname (session_file self) \<noteq> []"
    and "json_load L (json_dump L (JList [])) = Some (JList [])"
    and "handle_command L R self args w = (r, w1)"
  shows "handle_command L R (load_session L (self\<lparr>conversation_history := JList []\<rparr>) w1)
           [''--continue''] w1
         = (Ok (self\<lparr>conversation_history := JList []\<rparr>),
            w1\<lparr>stdout := stdout w1 @ ''No previous conversation found'' @ newline\<rparr>)"
proof -
  from handle_command_clear [OF assms(1-6), of L R w] assms(8)
  have w1: "w1 = w\<lparr>fs := (fs w)(session_file self \<mapsto> json_dump L (JList [])),
              stdout := stdout w @ ''Session cleared'' @ newline\<rparr>"
    by simp
  then have "load_session L (self\<lparr>conversation_history := JList []\<rparr>) w1
               = self\<lparr>conversation_history := JList []\<rparr>"
    using assms(7) by (simp add: load_session_def)
  then show ?thesis
    by (simp add: handle_command_def print_out_def)
qed

text \<open>
  C9, as the program does it. With \<^verbatim>\<open>--continue\<close> or \<^verbatim>\<open>--resume\<close> and none of
  \<^verbatim>\<open>--help\<close>, \<^verbatim>\<open>-h\<close>, \<^verbatim>\<open>--version\<close>, \<^verbatim>\<open>-v\<close>, \<^verbatim>\<open>--clear\<close>, on a stored log whose last
  two entries are messages: \<^const>\<open>handle_command\<close> returns normally, sends no request and
  writes no file. For an empty log it prints that no previous conversation was found;
  otherwise it prints a heading and, for each of the last up to 2 messages in order,
  the label \<^verbatim>\<open>You\<close> or \<^verbatim>\<open>Claude\<close>, the first 100 characters of the content, and the
  marker \<^verbatim>\<open>...\<close>, which is added whether the content was cut or not.
\<close>

theorem handle_command_continue:
  assumes "''--continue'' \<in> set args \<or> ''--resume'' \<in> set args"
    and "''--help'' \<notin> set args" "''-h'' \<notin> set args" "''--version'' \<notin> set args"
        "''-v'' \<notin> set args" "''--clear'' \<notin> set args"
    and "conversation_history self = JList hist"
    and "list_all is_message (last_n 2 hist)"
  shows "handle_command L R self args w =
           (Ok self,
            w\<lparr>stdout := stdout w @
               (if hist = [] then ''No previous conversation found'' @ newline
                else ''Resuming previous conversation...'' @ newline @
                     concat (map resume_text (last_n 2 hist)))\<rparr>)
         \<and> length (last_n 2 hist) \<le> 2
         \<and> net_log (snd (handle_command L R self args w)) = net_log w
         \<and> fs (snd (handle_command L R self args w)) = fs w"
  using assms
  by (auto simp: handle_command_def Let_def resume_loop_messages print_out_def last_n_def)

theorem handle_command_continue_witness:
  "''--resume'' \<in> set [''--resume'']
   \<and> list_all is_message (last_n 2 ten_messages)
   \<and> handle_command example_lib example_remote
        (example_wrapper\<lparr>conversation_history := JList ten_messages\<rparr>) [''--resume''] example_world
     = (Ok (example_wrapper\<lparr>conversation_history := JList ten_messages\<rparr>),
        example_world\<lparr>stdout := ''Resuming previous conversation...'' @ newline @
           ''You: q5...'' @ newline @ ''Claude: a5...'' @ newline\<rparr>)"
proof -
  let ?self = "example_wrapper\<lparr>conversation_history := JList ten_messages\<rparr>"
  have h: "conversation_history ?self = JList ten_messages" by simp
  have l: "last_n 2 ten_messages = [user_message ''q5'', assistant_message ''a5'']"
    by (simp add: last_n_def ten_messages_def)
  have m: "list_all is_message (last_n 2 ten_messages)"
    by (simp add: l is_message_def user_message_def assistant_message_def)
  have t: "concat (map resume_text (last_n 2 ten_messages))
             = ''You: q5...'' @ newline @ ''Claude: a5...'' @ newline"
    by (simp add: l resume_text_def role_label_def content_text_def user_message_def
        assistant_message_def)
  have ne: "ten_messages \<noteq> []" by (simp add: ten_messages_def)
  from handle_command_continue
    [of "[''--resume'']" ?self ten_messages example_lib example_remote example_world, OF _ _ _ _ _ _ h m]
  have "handle_command example_lib example_remote ?self [''--resume''] example_world =
           (Ok ?self,
            example_world\<lparr>stdout := stdout example_world @
               (if ten_messages = [] then ''No previous conversation found'' @ newline
                else ''Resuming previous conversation...'' @ newline @
                     concat (map resume_text (last_n 2 ten_messages)))\<rparr>)"
    by simp
  with ne t m show ?thesis by (simp add: example_world_def)
qed

text \<open>
  C9 as stated fails when a flag that is answered earlier is also present: with
  \<^verbatim>\<open>--continue --version\<close> and an empty log the program prints the version, not that no
  previous conversation was found.
\<close>

theorem handle_command_continue_counterexample:
  "''--continue'' \<in> set [''--continue'', ''--version'']
   \<and> conversation_history example_wrapper = JList []
   \<and> stdout (snd (handle_command example_lib example_remote example_wrapper
        [''--continue'', ''--version''] example_world)) = ''Claude CLI Wrapper v1.0.0'' @ newline
   \<and> stdout (snd (handle_command example_lib example_remote example_wrapper
        [''--continue'', ''--version''] example_world)) \<noteq> ''No previous conversation found'' @ newline"
  by (simp add: handle_command_def example_wrapper_def example_world_def print_out_def)


end
